theory Spec2Isabelle
  imports Complex_Main "HOL-Library.Char_ord" "HOL-Library.List_Lexorder"
begin

section \<open>Code-trackr backend: a shallow embedding of \<open>backend/server.py\<close>\<close>

text \<open>
  The server is a FastAPI application over two MongoDB collections, \<open>users\<close> and
  \<open>problems\<close>. Each endpoint is modelled as a function from the request, the readings
  the handler takes from its surroundings (clock, fresh identifiers, libraries) and the
  database to either the exception that leaves the handler or the response, together with
  the new database where the handler writes.

  Strings are ordered as Python orders \<open>str\<close>: lexicographically by code point, which on
  UTF-8 bytes is the order of \<open>HOL-Library.List_Lexorder\<close> over \<open>HOL-Library.Char_ord\<close>.
\<close>

subsection \<open>Exceptions\<close>

text \<open>
  \<open>HTTPException\<close> carries the status code and the detail of the source. The three
  \<open>jwt\<close> exceptions are the ones \<open>jwt.decode\<close> raises in the model below. \<open>ValueError\<close> is
  what \<open>datetime.fromisoformat\<close> raises on a string it cannot read and, as its subclass
  \<open>PasswordValueError\<close>, what the password library raises on a password it refuses;
  \<open>AttributeError\<close> is what the lookup of a name a module does not have raises. An exception other than
  \<open>HTTPException\<close> that leaves a handler is answered by the framework with status 500.
\<close>

datatype exn =
    HTTPException nat string
  | ExpiredSignatureError
  | InvalidSignatureError
  | DecodeError
  | AttributeError
  | ValueError

fun http_status :: "exn \<Rightarrow> nat" where
  "http_status (HTTPException status_code detail) = status_code"
| "http_status e = 500"

subsection \<open>Models (lines 39-84)\<close>

text \<open>
  Timestamps are seconds since the epoch (UTC), calendar dates are days since the epoch.
  \<open>Problem\<close> has the five fields of \<open>ProblemCreate\<close> and three more, so it is the
  record extension. Field names that clash between the classes, or with a constant of
  HOL, carry a suffix. Neither \<open>ProblemCreate\<close> nor \<open>UserRegister\<close> declares a
  constraint on a field beyond its type, so every value of the record type is a body
  the framework's validation lets through.
\<close>

record User =
  id_u :: string
  username :: string
  created_at_u :: int

text \<open>A document of \<open>db.users\<close>: the dump of the \<open>User\<close> with the hash under \<open>password\<close>.\<close>

record user_doc = User +
  password_hash :: string

record UserRegister =
  username_r :: string
  password_r :: string

type_synonym UserLogin = UserRegister

record ProblemCreate =
  title :: string
  platform :: string
  difficulty :: string
  topics :: "string list"
  date_completed :: string

record Problem = ProblemCreate +
  id_p :: string
  user_id :: string
  created_at_p :: int

record TopicStats =
  topic :: string
  count :: nat
  percentage :: rat

record Stats =
  total_solved :: nat
  current_streak :: nat
  topic_wise :: "TopicStats list"

subsection \<open>Tokens\<close>

text \<open>
  The payload of a token has the two claims the server writes, either of which a
  presented token may lack. A bearer string is either not a JSON web token at all, or
  a payload with the tag that signs it.
\<close>

record payload =
  sub_claim :: "string option"
  exp_claim :: "int option"

datatype bearer = Garbled string | Jwt payload nat

record Token =
  access_token :: bearer
  token_type :: string
  user :: User

subsection \<open>Surroundings of the process\<close>

text \<open>
  What the module reads from its environment and its libraries, fixed for the lifetime
  of the process:
  \<^item> \<open>SECRET_KEY\<close>, line 28;
  \<^item> \<open>hs256\<close>: the HMAC-SHA256 tag of a payload under a key (\<open>ALGORITHM\<close>, line 29);
  \<^item> \<open>pwd_hash\<close> and \<open>pwd_verify\<close>: \<open>pwd_context.hash\<close> and \<open>pwd_context.verify\<close>, \<open>None\<close>
    where the library raises (bcrypt refuses a password with a NUL byte);
  \<^item> \<open>float_div\<close>, \<open>float_mul\<close> and \<open>round1\<close>: the division \<open>count / total_solved\<close> of two
    integers, the product of two doubles and \<open>round(x, 1)\<close>, in binary floating point; a
    double is given as the rational number it denotes;
  \<^item> \<open>fromisoformat_date\<close>: \<open>datetime.fromisoformat(s).date()\<close>, \<open>None\<close> where
    \<open>fromisoformat\<close> raises \<open>ValueError\<close>;
  \<^item> \<open>date_isoformat\<close>: \<open>d.isoformat()\<close> of a date.
  Nothing is assumed of them: the theorems hold for every such environment.
\<close>

record env =
  SECRET_KEY :: string
  hs256 :: "string \<Rightarrow> payload \<Rightarrow> nat"
  pwd_hash :: "string \<Rightarrow> string option"
  pwd_verify :: "string \<Rightarrow> string \<Rightarrow> bool option"
  float_div :: "nat \<Rightarrow> nat \<Rightarrow> rat"
  float_mul :: "rat \<Rightarrow> rat \<Rightarrow> rat"
  round1 :: "rat \<Rightarrow> rat"
  fromisoformat_date :: "string \<Rightarrow> int option"
  date_isoformat :: "int \<Rightarrow> string"

record db =
  users :: "user_doc list"
  problems :: "Problem list"

definition utc_date :: "int \<Rightarrow> int" where
  \<comment> \<open>\<open>datetime.now(timezone.utc).date()\<close> of the instant \<open>now\<close>\<close>
  "utc_date now = now div 86400"

subsection \<open>Statistics (lines 186-217)\<close>

text \<open>
  \<open>topic_count\<close> is a Python dictionary, which keeps its keys in the order of their
  first insertion; \<open>topic_count.items()\<close> is read in that order, so the dictionary is an
  association list. \<open>bump\<close> is the statement
  \<^verbatim>\<open>topic_count[topic] = topic_count.get(topic, 0) + 1\<close>.
\<close>

fun bump :: "string \<Rightarrow> (string \<times> nat) list \<Rightarrow> (string \<times> nat) list" where
  "bump t [] = [(t, 1)]"
| "bump t ((k, c) # kvs) = (if k = t then (k, c + 1) # kvs else (k, c) # bump t kvs)"

definition topic_count :: "Problem list \<Rightarrow> (string \<times> nat) list" where
  "topic_count ps = foldl (\<lambda>tc t. bump t tc) [] (concat (map topics ps))"

text \<open>
  The percentage of lines 196-197: the floating-point value of
  \<open>count / total_solved * 100\<close>, rounded by \<open>round(x, 1)\<close>. With no problem the value is the
  integer \<open>0\<close>, which \<open>round\<close> returns as it is.
\<close>

definition topic_stat :: "env \<Rightarrow> nat \<Rightarrow> string \<times> nat \<Rightarrow> TopicStats" where
  \<comment> \<open>the body of the loop of lines 195-197\<close>
  "topic_stat e n = (\<lambda>(t, c).
     \<lparr>topic = t, count = c,
      percentage = (if n > 0 then round1 e (float_mul e (float_div e c n) 100) else 0)\<rparr>)"

text \<open>
  \<open>topic_wise.sort(key=lambda x: x.count, reverse=True)\<close>: Python's sort is stable, also
  with \<open>reverse=True\<close>, so it is the stable sort by the negated count.
\<close>

definition sort_by_count_desc :: "TopicStats list \<Rightarrow> TopicStats list" where
  "sort_by_count_desc tw = sort_key (\<lambda>x. - int (count x)) tw"

definition topic_wise_of :: "env \<Rightarrow> Problem list \<Rightarrow> TopicStats list" where
  "topic_wise_of e ps = sort_by_count_desc (map (topic_stat e (length ps)) (topic_count ps))"

text \<open>
  \<open>dates = sorted(set(p['date_completed'] for p in problems), reverse=True)\<close>: the
  distinct strings, in descending order of the strings.
\<close>

definition sorted_dates :: "Problem list \<Rightarrow> string list" where
  "sorted_dates ps = rev (sort (remdups (map date_completed ps)))"

text \<open>
  The loop of lines 208-215 over \<open>enumerate(dates)\<close>, from index \<open>i\<close> with \<open>streak\<close> days
  counted so far. A string that \<open>fromisoformat\<close> rejects ends the request with
  \<open>ValueError\<close>.
\<close>

fun streak_loop :: "env \<Rightarrow> int \<Rightarrow> nat \<Rightarrow> string list \<Rightarrow> nat \<Rightarrow> exn + nat" where
  "streak_loop e today i [] streak = Inr streak"
| "streak_loop e today i (date_str # rest) streak =
     (case fromisoformat_date e date_str of
        None \<Rightarrow> Inl ValueError
      | Some date \<Rightarrow>
          (let expected_date = today - int i
           in if date = expected_date then streak_loop e today (Suc i) rest (Suc streak)
              else Inr streak))"

definition streak_of :: "env \<Rightarrow> int \<Rightarrow> Problem list \<Rightarrow> exn + nat" where
  "streak_of e now ps =
     (if ps \<noteq> [] then streak_loop e (utc_date now) 0 (sorted_dates ps) 0 else Inr 0)"

text \<open>The body of \<open>get_stats\<close> once the caller's problems are fetched.\<close>

definition compute_stats :: "env \<Rightarrow> int \<Rightarrow> Problem list \<Rightarrow> exn + Stats" where
  "compute_stats e now ps =
     (let n = length ps;
          tw = topic_wise_of e ps
      in case streak_of e now ps of
           Inl err \<Rightarrow> Inl err
         | Inr streak \<Rightarrow> Inr \<lparr>total_solved = n, current_streak = streak, topic_wise = tw\<rparr>)"

subsection \<open>Passwords and tokens (lines 87-111)\<close>

definition hash_password :: "env \<Rightarrow> string \<Rightarrow> exn + string" where
  "hash_password e password =
     (case pwd_hash e password of None \<Rightarrow> Inl ValueError | Some h \<Rightarrow> Inr h)"

definition verify_password :: "env \<Rightarrow> string \<Rightarrow> string \<Rightarrow> exn + bool" where
  "verify_password e plain_password hashed_password =
     (case pwd_verify e plain_password hashed_password of
        None \<Rightarrow> Inl ValueError | Some ok \<Rightarrow> Inr ok)"

definition ACCESS_TOKEN_EXPIRE_MINUTES :: int where
  "ACCESS_TOKEN_EXPIRE_MINUTES = 30 * 24 * 60"

text \<open>
  \<open>jwt.encode(payload, key, algorithm="HS256")\<close> and
  \<open>jwt.decode(token, key, algorithms=["HS256"])\<close> of the PyJWT package, which is the
  module that \<open>import jwt\<close> binds. Decoding checks the form of the token, then the
  signature, then the \<open>exp\<close> claim where there is one: the token is expired from the
  instant \<open>exp\<close> on.
\<close>

definition jwt_encode :: "env \<Rightarrow> payload \<Rightarrow> string \<Rightarrow> bearer" where
  "jwt_encode e p key = Jwt p (hs256 e key p)"

fun jwt_decode :: "env \<Rightarrow> int \<Rightarrow> bearer \<Rightarrow> string \<Rightarrow> exn + payload" where
  "jwt_decode e now (Garbled s) key = Inl DecodeError"
| "jwt_decode e now (Jwt p tag) key =
     (if tag \<noteq> hs256 e key p then Inl InvalidSignatureError
      else case exp_claim p of
             None \<Rightarrow> Inr p
           | Some t \<Rightarrow> if t \<le> now then Inl ExpiredSignatureError else Inr p)"

text \<open>
  The exception classes that the names of module \<open>jwt\<close> denote, each as the set of
  exceptions of the model that are instances of it. PyJWT exports \<open>PyJWTError\<close>,
  \<open>InvalidTokenError\<close>, \<open>DecodeError\<close>, \<open>InvalidSignatureError\<close> and
  \<open>ExpiredSignatureError\<close> among others; it has no attribute \<open>JWTError\<close> (that name is
  python-jose's), so evaluating \<open>jwt.JWTError\<close> raises \<open>AttributeError\<close>.
\<close>

definition jwt_attr :: "string \<Rightarrow> (exn \<Rightarrow> bool) option" where
  "jwt_attr name =
     (if name = ''PyJWTError'' \<or> name = ''InvalidTokenError''
        then Some (\<lambda>x. x = DecodeError \<or> x = InvalidSignatureError \<or> x = ExpiredSignatureError)
      else if name = ''DecodeError'' then Some (\<lambda>x. x = DecodeError \<or> x = InvalidSignatureError)
      else if name = ''InvalidSignatureError'' then Some (\<lambda>x. x = InvalidSignatureError)
      else if name = ''ExpiredSignatureError'' then Some (\<lambda>x. x = ExpiredSignatureError)
      else None)"

definition create_access_token :: "env \<Rightarrow> int \<Rightarrow> payload \<Rightarrow> bearer" where
  "create_access_token e now data =
     (let expire = now + ACCESS_TOKEN_EXPIRE_MINUTES * 60;
          to_encode = data\<lparr>exp_claim := Some expire\<rparr>
      in jwt_encode e to_encode (SECRET_KEY e))"

text \<open>
  \<open>get_current_user\<close>, lines 100-111. \<open>try_body\<close> is the body of the \<open>try\<close>; the
  \<open>HTTPException\<close> of line 106 is raised inside it, so it passes through the \<open>except\<close>
  clauses as the exceptions of \<open>jwt.decode\<close> do. Python evaluates the expression of
  each \<open>except\<close> clause in turn, and only when the clauses before it did not match.
  The dependency \<open>security\<close> has already taken the credentials from the header when
  this function runs.
\<close>

definition try_body :: "env \<Rightarrow> int \<Rightarrow> bearer \<Rightarrow> exn + string" where
  "try_body e now credentials =
     (case jwt_decode e now credentials (SECRET_KEY e) of
        Inl x \<Rightarrow> Inl x
      | Inr p \<Rightarrow>
          (case sub_claim p of
             None \<Rightarrow> Inl (HTTPException 401 ''Invalid authentication credentials'')
           | Some uid \<Rightarrow> Inr uid))"

definition except_clauses :: "exn \<Rightarrow> exn" where
  "except_clauses raised =
     (case jwt_attr ''ExpiredSignatureError'' of
        None \<Rightarrow> AttributeError
      | Some expired \<Rightarrow>
          if expired raised then HTTPException 401 ''Token has expired''
          else (case jwt_attr ''JWTError'' of
                  None \<Rightarrow> AttributeError
                | Some jwt_error \<Rightarrow>
                    if jwt_error raised then HTTPException 401 ''Invalid token''
                    else raised))"

definition get_current_user :: "env \<Rightarrow> int \<Rightarrow> bearer \<Rightarrow> exn + string" where
  "get_current_user e now credentials =
     (case try_body e now credentials of
        Inr uid \<Rightarrow> Inr uid
      | Inl raised \<Rightarrow> Inl (except_clauses raised))"

subsection \<open>Auth endpoints (lines 114-151)\<close>

definition find_one_user :: "db \<Rightarrow> string \<Rightarrow> user_doc option" where
  \<comment> \<open>\<open>db.users.find_one({"username": name})\<close>\<close>
  "find_one_user d name = find (\<lambda>u. username u = name) (users d)"

text \<open>
  \<open>register\<close> reads the clock twice, for \<open>created_at\<close> and for the token, and draws one
  identifier from \<open>uuid4\<close>. The password is hashed at line 125, before the insertion of
  line 127: where the hashing raises, nothing is written.
\<close>

definition register :: "env \<Rightarrow> int \<Rightarrow> int \<Rightarrow> string \<Rightarrow> UserRegister \<Rightarrow> db \<Rightarrow> exn + (Token \<times> db)" where
  "register e t_created t_token new_id user_data d =
     (case find_one_user d (username_r user_data) of
        Some existing_user \<Rightarrow> Inl (HTTPException 400 ''Username already registered'')
      | None \<Rightarrow>
          (let usr = \<lparr>id_u = new_id, username = username_r user_data, created_at_u = t_created\<rparr>
           in case hash_password e (password_r user_data) of
                Inl x \<Rightarrow> Inl x
              | Inr hashed \<Rightarrow>
                  (let user_dict = \<lparr>id_u = id_u usr, username = username usr,
                                    created_at_u = created_at_u usr, password_hash = hashed\<rparr>;
                       d' = d\<lparr>users := users d @ [user_dict]\<rparr>;
                       tok = create_access_token e t_token
                               \<lparr>sub_claim = Some (id_u usr), exp_claim = None\<rparr>
                   in Inr (\<lparr>access_token = tok, token_type = ''bearer'', user = usr\<rparr>, d'))))"

text \<open>
  \<open>login\<close>, line 138: \<open>not user_doc or not verify_password(...)\<close> calls \<open>verify_password\<close>
  only when a document was found; its exception leaves the handler.
\<close>

definition login :: "env \<Rightarrow> int \<Rightarrow> UserLogin \<Rightarrow> db \<Rightarrow> exn + Token" where
  "login e t_token user_data d =
     (case find_one_user d (username_r user_data) of
        None \<Rightarrow> Inl (HTTPException 401 ''Incorrect username or password'')
      | Some user_doc \<Rightarrow>
          (case verify_password e (password_r user_data) (password_hash user_doc) of
             Inl x \<Rightarrow> Inl x
           | Inr ok \<Rightarrow>
               if \<not> ok then Inl (HTTPException 401 ''Incorrect username or password'')
               else
                 (let usr = \<lparr>id_u = id_u user_doc, username = username user_doc,
                             created_at_u = created_at_u user_doc\<rparr>;
                      tok = create_access_token e t_token
                              \<lparr>sub_claim = Some (id_u usr), exp_claim = None\<rparr>
                  in Inr \<lparr>access_token = tok, token_type = ''bearer'', user = usr\<rparr>)))"

subsection \<open>Problem endpoints (lines 154-217)\<close>

definition new_problem :: "string \<Rightarrow> string \<Rightarrow> int \<Rightarrow> ProblemCreate \<Rightarrow> Problem" where
  \<comment> \<open>the constructor call \<open>Problem(user_id=..., title=..., ...)\<close> with its two defaults\<close>
  "new_problem uid new_id now pd =
     \<lparr>title = title pd, platform = platform pd, difficulty = difficulty pd,
      topics = topics pd, date_completed = date_completed pd,
      id_p = new_id, user_id = uid, created_at_p = now\<rparr>"

definition insert_problem :: "Problem \<Rightarrow> db \<Rightarrow> db" where
  "insert_problem p d = d\<lparr>problems := problems d @ [p]\<rparr>"

definition find_problems :: "db \<Rightarrow> string \<Rightarrow> Problem list" where
  \<comment> \<open>\<open>db.problems.find({"user_id": uid}, {"_id": 0}).to_list(1000)\<close>\<close>
  "find_problems d uid = take 1000 (filter (\<lambda>p. user_id p = uid) (problems d))"

definition count_problems :: "db \<Rightarrow> string \<Rightarrow> nat" where
  \<comment> \<open>\<open>db.problems.count_documents({"user_id": uid})\<close>\<close>
  "count_problems d uid = length (filter (\<lambda>p. user_id p = uid) (problems d))"

text \<open>
  Each of the endpoints below depends on \<open>get_current_user\<close>, which runs first with its
  own reading \<open>t_auth\<close> of the clock; its exception is the answer of the request.
\<close>

definition create_problem ::
  "env \<Rightarrow> int \<Rightarrow> int \<Rightarrow> string \<Rightarrow> bearer \<Rightarrow> ProblemCreate \<Rightarrow> db \<Rightarrow> exn + (Problem \<times> db)" where
  "create_problem e t_auth now new_id credentials problem_data d =
     (case get_current_user e t_auth credentials of
        Inl x \<Rightarrow> Inl x
      | Inr uid \<Rightarrow>
          (let problem = new_problem uid new_id now problem_data
           in Inr (problem, insert_problem problem d)))"

definition get_problems :: "env \<Rightarrow> int \<Rightarrow> bearer \<Rightarrow> db \<Rightarrow> exn + Problem list" where
  "get_problems e t_auth credentials d =
     (case get_current_user e t_auth credentials of
        Inl x \<Rightarrow> Inl x
      | Inr uid \<Rightarrow> Inr (find_problems d uid))"

definition get_stats :: "env \<Rightarrow> int \<Rightarrow> int \<Rightarrow> bearer \<Rightarrow> db \<Rightarrow> exn + Stats" where
  "get_stats e t_auth now credentials d =
     (case get_current_user e t_auth credentials of
        Inl x \<Rightarrow> Inl x
      | Inr uid \<Rightarrow> compute_stats e now (find_problems d uid))"

subsection \<open>Seeding (lines 220-255)\<close>

text \<open>
  The handler reads the clock once for each sample problem when it builds the list
  (\<open>clock 0\<close> to \<open>clock 9\<close>) and once for each \<open>created_at\<close> in the loop, and draws one
  identifier per problem: \<open>clock k\<close> is the \<open>k\<close>-th reading of the request, \<open>uuids k\<close>
  the \<open>k\<close>-th identifier.
\<close>

definition sample_problems :: "env \<Rightarrow> (nat \<Rightarrow> int) \<Rightarrow> ProblemCreate list" where
  "sample_problems e clock =
     [\<lparr>title = ''Two Sum'', platform = ''LeetCode'', difficulty = ''Easy'',
       topics = [''Arrays'', ''Hash Table''],
       date_completed = date_isoformat e (utc_date (clock 0 - 5 * 86400))\<rparr>,
      \<lparr>title = ''Reverse Linked List'', platform = ''LeetCode'', difficulty = ''Easy'',
       topics = [''Linked List''],
       date_completed = date_isoformat e (utc_date (clock 1 - 4 * 86400))\<rparr>,
      \<lparr>title = ''Valid Parentheses'', platform = ''LeetCode'', difficulty = ''Easy'',
       topics = [''Stack'', ''Strings''],
       date_completed = date_isoformat e (utc_date (clock 2 - 3 * 86400))\<rparr>,
      \<lparr>title = ''Binary Tree Inorder Traversal'', platform = ''LeetCode'', difficulty = ''Medium'',
       topics = [''Trees'', ''DFS''],
       date_completed = date_isoformat e (utc_date (clock 3 - 2 * 86400))\<rparr>,
      \<lparr>title = ''Longest Palindromic Substring'', platform = ''LeetCode'', difficulty = ''Medium'',
       topics = [''Strings'', ''DP''],
       date_completed = date_isoformat e (utc_date (clock 4 - 1 * 86400))\<rparr>,
      \<lparr>title = ''Merge Two Sorted Lists'', platform = ''LeetCode'', difficulty = ''Easy'',
       topics = [''Linked List''],
       date_completed = date_isoformat e (utc_date (clock 5))\<rparr>,
      \<lparr>title = ''Maximum Subarray'', platform = ''LeetCode'', difficulty = ''Medium'',
       topics = [''Arrays'', ''DP''],
       date_completed = date_isoformat e (utc_date (clock 6))\<rparr>,
      \<lparr>title = ''Climbing Stairs'', platform = ''LeetCode'', difficulty = ''Easy'',
       topics = [''DP''],
       date_completed = date_isoformat e (utc_date (clock 7 - 6 * 86400))\<rparr>,
      \<lparr>title = ''Roman to Integer'', platform = ''Codeforces'', difficulty = ''Easy'',
       topics = [''Strings'', ''Hash Table''],
       date_completed = date_isoformat e (utc_date (clock 8 - 7 * 86400))\<rparr>,
      \<lparr>title = ''Binary Search'', platform = ''Codeforces'', difficulty = ''Easy'',
       topics = [''Arrays'', ''Binary Search''],
       date_completed = date_isoformat e (utc_date (clock 9 - 8 * 86400))\<rparr>]"

fun seed_loop :: "string \<Rightarrow> (nat \<Rightarrow> string) \<Rightarrow> (nat \<Rightarrow> int) \<Rightarrow> nat \<Rightarrow> ProblemCreate list \<Rightarrow> db \<Rightarrow> db" where
  "seed_loop uid uuids clock k [] d = d"
| "seed_loop uid uuids clock k (problem_data # rest) d =
     seed_loop uid uuids clock (Suc k) rest
       (insert_problem (new_problem uid (uuids k) (clock (10 + k)) problem_data) d)"

text \<open>\<open>str(n)\<close> of a natural number, for the f-string of line 255.\<close>

fun str_nat :: "nat \<Rightarrow> string" where
  "str_nat n =
     (if n < 10 then [char_of (48 + n)] else str_nat (n div 10) @ [char_of (48 + n mod 10)])"

declare str_nat.simps [simp del]

definition seed_data ::
  "env \<Rightarrow> int \<Rightarrow> (nat \<Rightarrow> int) \<Rightarrow> (nat \<Rightarrow> string) \<Rightarrow> bearer \<Rightarrow> db \<Rightarrow> exn + (string \<times> db)" where
  "seed_data e t_auth clock uuids credentials d =
     (case get_current_user e t_auth credentials of
        Inl x \<Rightarrow> Inl x
      | Inr uid \<Rightarrow>
          (let existing_count = count_problems d uid
           in if existing_count > 0 then Inr (''User already has problems'', d)
              else
                (let sp = sample_problems e clock;
                     d' = seed_loop uid uuids clock 0 sp d
                 in Inr (''Seeded '' @ str_nat (length sp) @ '' sample problems'', d'))))"

subsection \<open>The auth routes as HTTP\<close>

text \<open>
  What the framework does around \<open>register\<close> and \<open>login\<close>. The source uses pydantic 2
  (\<open>model_dump\<close>, \<open>ConfigDict\<close>); FastAPI validates the JSON body against
  \<open>UserRegister\<close> before the handler runs and answers a body that fails with status 422
  and the list of pydantic's errors under \<open>detail\<close>, each with the \<open>input\<close> that failed:
  for a missing field that input is the whole submitted object. An \<open>HTTPException\<close> is
  answered with its status and detail, any other exception with status 500 and the text
  \<open>Internal Server Error\<close>, a result with status 200 and the fields of the response model.
  The body is the value \<open>json.loads\<close> produced, an object with distinct keys.
\<close>

datatype json =
    JNull
  | JBool bool
  | JNumber int
  | JString string
  | JArray "json list"
  | JObject "(string \<times> json) list"

fun json_strings :: "json \<Rightarrow> string list" where
  "json_strings (JString s) = [s]"
| "json_strings (JArray xs) = concat (map json_strings xs)"
| "json_strings (JObject kvs) = concat (map (\<lambda>kv. json_strings (snd kv)) kvs)"
| "json_strings v = []"

record validation_error =
  err_type :: string
  loc :: "string list"
  msg :: string
  input :: json

definition field_errors :: "(string \<times> json) list \<Rightarrow> string \<Rightarrow> validation_error list" where
  "field_errors obj name =
     (case map_of obj name of
        None \<Rightarrow> [\<lparr>err_type = ''missing'', loc = [''body'', name], msg = ''Field required'',
                   input = JObject obj\<rparr>]
      | Some (JString s) \<Rightarrow> []
      | Some v \<Rightarrow> [\<lparr>err_type = ''string_type'', loc = [''body'', name],
                     msg = ''Input should be a valid string'', input = v\<rparr>])"

definition validate_UserRegister :: "json \<Rightarrow> validation_error list + UserRegister" where
  "validate_UserRegister body =
     (case body of
        JObject obj \<Rightarrow>
          (case (map_of obj ''username'', map_of obj ''password'') of
             (Some (JString u), Some (JString p)) \<Rightarrow> Inr \<lparr>username_r = u, password_r = p\<rparr>
           | other \<Rightarrow> Inl (field_errors obj ''username'' @ field_errors obj ''password''))
      | v \<Rightarrow> Inl [\<lparr>err_type = ''model_attributes_type'', loc = [''body''],
                    msg = ''Input should be a valid dictionary or object to extract fields from'',
                    input = v\<rparr>])"

definition error_json :: "validation_error \<Rightarrow> json" where
  "error_json err =
     JObject [(''type'', JString (err_type err)), (''loc'', JArray (map JString (loc err))),
              (''msg'', JString (msg err)), (''input'', input err)]"

text \<open>
  The body of a \<open>Token\<close> response. The token itself is a string from which anyone reads
  the payload, so it is given by its payload and tag.
\<close>

fun bearer_json :: "bearer \<Rightarrow> json" where
  "bearer_json (Garbled s) = JString s"
| "bearer_json (Jwt p tag) =
     JObject [(''sub'', case sub_claim p of None \<Rightarrow> JNull | Some u \<Rightarrow> JString u),
              (''exp'', case exp_claim p of None \<Rightarrow> JNull | Some t \<Rightarrow> JNumber t),
              (''signature'', JNumber (int tag))]"

definition token_json :: "Token \<Rightarrow> json" where
  "token_json r =
     JObject [(''access_token'', bearer_json (access_token r)),
              (''token_type'', JString (token_type r)),
              (''user'', JObject [(''id'', JString (id_u (user r))),
                                  (''username'', JString (username (user r))),
                                  (''created_at'', JNumber (created_at_u (user r)))])]"

fun exception_response :: "exn \<Rightarrow> nat \<times> json" where
  "exception_response (HTTPException status_code detail) =
     (status_code, JObject [(''detail'', JString detail)])"
| "exception_response x = (500, JString ''Internal Server Error'')"

definition post_register :: "env \<Rightarrow> int \<Rightarrow> int \<Rightarrow> string \<Rightarrow> json \<Rightarrow> db \<Rightarrow> (nat \<times> json) \<times> db" where
  "post_register e t_created t_token new_id body d =
     (case validate_UserRegister body of
        Inl errs \<Rightarrow> ((422, JObject [(''detail'', JArray (map error_json errs))]), d)
      | Inr user_data \<Rightarrow>
          (case register e t_created t_token new_id user_data d of
             Inl x \<Rightarrow> (exception_response x, d)
           | Inr (r, d') \<Rightarrow> ((200, token_json r), d')))"

definition post_login :: "env \<Rightarrow> int \<Rightarrow> json \<Rightarrow> db \<Rightarrow> nat \<times> json" where
  "post_login e t_token body d =
     (case validate_UserRegister body of
        Inl errs \<Rightarrow> (422, JObject [(''detail'', JArray (map error_json errs))])
      | Inr user_data \<Rightarrow>
          (case login e t_token user_data d of
             Inl x \<Rightarrow> exception_response x
           | Inr r \<Rightarrow> (200, token_json r)))"

subsection \<open>A concrete environment for the examples\<close>

text \<open>
  Eleven days of January 2024 with their day numbers stand for the calendar, together
  with two further spellings of 2024-01-15 that \<open>fromisoformat\<close> reads: with a time (every
  Python since 3.7) and in the basic format without hyphens (Python 3.11 and later).
  A toy function stands for the HMAC and a prefix for the password hash; both password
  functions refuse a password with a NUL byte, as bcrypt does. The floating-point
  operations are exact arithmetic and rounding to the nearest tenth, which is what the
  doubles give on the quarters and wholes of the examples. This is enough to run the
  definitions on concrete requests. The instant \<open>1705312800\<close> is 2024-01-15 10:00 UTC.
\<close>

definition calendar :: "(string \<times> int) list" where
  "calendar =
     [(''2024-01-06'', 19728), (''2024-01-07'', 19729), (''2024-01-08'', 19730),
      (''2024-01-09'', 19731), (''2024-01-10'', 19732), (''2024-01-11'', 19733),
      (''2024-01-12'', 19734), (''2024-01-13'', 19735), (''2024-01-14'', 19736),
      (''2024-01-15'', 19737), (''2024-01-16'', 19738),
      (''2024-01-15T08:00:00'', 19737), (''20240115'', 19737)]"

definition toy_mac :: "string \<Rightarrow> payload \<Rightarrow> nat" where
  "toy_mac key p =
     length key + (case sub_claim p of None \<Rightarrow> 0 | Some u \<Rightarrow> Suc (length u))
       + (case exp_claim p of None \<Rightarrow> 0 | Some t \<Rightarrow> Suc (nat (t mod 1000)))"

definition env0 :: env where
  "env0 =
     \<lparr>SECRET_KEY = ''your-secret-key-change-in-production'',
      hs256 = toy_mac,
      pwd_hash = (\<lambda>pw. if CHR 0x00 \<in> set pw then None else Some (''$2b$'' @ pw)),
      pwd_verify = (\<lambda>pw h. if CHR 0x00 \<in> set pw then None else Some (h = ''$2b$'' @ pw)),
      float_div = (\<lambda>a b. of_nat a / of_nat b),
      float_mul = (\<lambda>x y. x * y),
      round1 = (\<lambda>x. of_int \<lfloor>x * 10 + 1 / 2\<rfloor> / 10),
      fromisoformat_date = map_of calendar,
      date_isoformat = (\<lambda>day. case find (\<lambda>(s, k). k = day) calendar of
                                 None \<Rightarrow> [] | Some (s, k) \<Rightarrow> s)\<rparr>"

definition mk_problem :: "string \<Rightarrow> string list \<Rightarrow> string \<Rightarrow> Problem" where
  "mk_problem uid ts day =
     \<lparr>title = ''Two Sum'', platform = ''LeetCode'', difficulty = ''Easy'', topics = ts,
      date_completed = day, id_p = ''p'', user_id = uid, created_at_p = 1705312800\<rparr>"

text \<open>
  Tokens issued to users \<open>u1\<close> and \<open>u2\<close> at 2024-01-15 10:00 UTC, an empty database, and
  one with the user \<open>ada\<close> (identifier \<open>u1\<close>, password \<open>pw\<close>) and one problem of hers.
\<close>

definition tok_u1 :: bearer where
  "tok_u1 = create_access_token env0 1705312800 \<lparr>sub_claim = Some ''u1'', exp_claim = None\<rparr>"

definition tok_u2 :: bearer where
  "tok_u2 = create_access_token env0 1705312800 \<lparr>sub_claim = Some ''u2'', exp_claim = None\<rparr>"

definition db0 :: db where
  "db0 = \<lparr>users = [], problems = []\<rparr>"

definition db1 :: db where
  "db1 = \<lparr>users = [\<lparr>id_u = ''u1'', username = ''ada'', created_at_u = 1705000000,
                    password_hash = ''$2b$pw''\<rparr>],
          problems = [mk_problem ''u1'' [''Arrays'', ''Hash Table''] ''2024-01-15'']\<rparr>"

text \<open>
  A store with a second user \<open>bob\<close> (identifier \<open>u2\<close>, password \<open>hunter2\<close>) who has no
  problem; a second password library, which hashes by reversing; and the same two users
  with the hashes that library stored for the passwords \<open>pw\<close> and \<open>secret\<close>.
\<close>

definition db2 :: db where
  "db2 = \<lparr>users = [\<lparr>id_u = ''u1'', username = ''ada'', created_at_u = 1705000000,
                    password_hash = ''$2b$pw''\<rparr>,
                   \<lparr>id_u = ''u2'', username = ''bob'', created_at_u = 1705100000,
                    password_hash = ''$2b$hunter2''\<rparr>],
          problems = [mk_problem ''u1'' [''Arrays'', ''Hash Table''] ''2024-01-15'']\<rparr>"

definition env0_rev :: env where
  "env0_rev = env0\<lparr>pwd_hash := (\<lambda>pw. Some (rev pw)), pwd_verify := (\<lambda>pw h. Some (h = rev pw))\<rparr>"

definition db2_rev :: db where
  "db2_rev = \<lparr>users = [\<lparr>id_u = ''u1'', username = ''ada'', created_at_u = 1705000000,
                        password_hash = ''wp''\<rparr>,
                       \<lparr>id_u = ''u2'', username = ''bob'', created_at_u = 1705100000,
                        password_hash = ''terces''\<rparr>],
              problems = []\<rparr>"

text \<open>
  Notions of the specification, stated without the code's own functions: the usernames in
  the credential store; what a stored user has besides the hash; the calendar dates of a list of problems under a reading \<open>day\<close>
  of their strings; the streak of a list of dates (deduplicate, sort descending, count
  the leading dates that are today, yesterday, and so on); all topic occurrences of a
  list of problems, in order; the distinct elements of a list in the order of their
  first occurrence.
\<close>

definition usernames :: "db \<Rightarrow> string set" where
  "usernames d = username ` set (users d)"

definition public_fields :: "'a User_scheme \<Rightarrow> string \<times> string \<times> int" where
  "public_fields u = (id_u u, username u, created_at_u u)"

definition dates_of :: "(string \<Rightarrow> int) \<Rightarrow> Problem list \<Rightarrow> int list" where
  "dates_of day ps = map (\<lambda>p. day (date_completed p)) ps"

definition spec_streak :: "int \<Rightarrow> int list \<Rightarrow> nat" where
  "spec_streak today dates =
     length (takeWhile (\<lambda>(i, d). d = today - int i) (enumerate 0 (rev (sort (remdups dates)))))"



text \<open>
  Problem lists and readings for the examples; today is 2024-01-15, day 19737.
  \<open>day0\<close> reads a string of the calendar as its day.
\<close>

definition day0 :: "string \<Rightarrow> int" where
  "day0 s = (case map_of calendar s of None \<Rightarrow> 0 | Some k \<Rightarrow> k)"

definition ps3 :: "Problem list" where
  "ps3 = [mk_problem ''u1'' [''Arrays'', ''Hash Table''] ''2024-01-15'',
          mk_problem ''u1'' [''Hash Table'', ''DP''] ''2024-01-14'',
          mk_problem ''u1'' [''DP'', ''Hash Table''] ''2024-01-15'',
          mk_problem ''u1'' [''Trees''] ''2024-01-12'']"

definition ps_past :: "Problem list" where
  "ps_past = [mk_problem ''u1'' [''Arrays''] ''2024-01-13'',
              mk_problem ''u1'' [''DP''] ''2024-01-14'',
              mk_problem ''u1'' [''Trees''] ''2024-01-13'']"

definition ps_basic :: "Problem list" where
  "ps_basic = [mk_problem ''u1'' [''Arrays''] ''20240115'',
               mk_problem ''u1'' [''DP''] ''2024-01-16'']"

definition ps_timed :: "Problem list" where
  "ps_timed = [mk_problem ''u1'' [''Arrays''] ''2024-01-15'',
               mk_problem ''u1'' [''DP''] ''2024-01-15T08:00:00'',
               mk_problem ''u1'' [''Trees''] ''2024-01-14'']"

definition ps_bad_date :: "Problem list" where
  "ps_bad_date = [mk_problem ''u1'' [''Arrays''] ''not-a-date'']"


section \<open>Authentication\<close>

text \<open>
  The two names the \<open>except\<close> clauses of \<open>get_current_user\<close> look up in module
  \<open>jwt\<close>, and what the clauses therefore do with an exception raised in the \<open>try\<close>.
\<close>

lemma jwt_attr_expired: "jwt_attr ''ExpiredSignatureError'' = Some (\<lambda>x. x = ExpiredSignatureError)"
  by (simp add: jwt_attr_def)

lemma jwt_attr_JWTError: "jwt_attr ''JWTError'' = None"
  by (simp add: jwt_attr_def)

lemma except_clauses_eq:
  "except_clauses raised =
     (if raised = ExpiredSignatureError then HTTPException 401 ''Token has expired''
      else AttributeError)"
  by (simp add: except_clauses_def jwt_attr_expired jwt_attr_JWTError)

lemma get_current_user_Jwt:
  "get_current_user e now (Jwt p tag) =
     (if tag \<noteq> hs256 e (SECRET_KEY e) p then Inl AttributeError
      else if (\<exists>t. exp_claim p = Some t \<and> t \<le> now) then Inl (HTTPException 401 ''Token has expired'')
      else case sub_claim p of None \<Rightarrow> Inl AttributeError | Some uid \<Rightarrow> Inr uid)"
  by (auto simp: get_current_user_def try_body_def except_clauses_eq split: option.splits)

lemma get_current_user_Garbled: "get_current_user e now (Garbled s) = Inl AttributeError"
  by (simp add: get_current_user_def try_body_def except_clauses_eq)

lemma auth_u1: "get_current_user env0 1705312800 tok_u1 = Inr ''u1''"
  by (simp add: tok_u1_def create_access_token_def jwt_encode_def ACCESS_TOKEN_EXPIRE_MINUTES_def
      get_current_user_Jwt Let_def env0_def)

lemma auth_u2: "get_current_user env0 1705312800 tok_u2 = Inr ''u2''"
  by (simp add: tok_u2_def create_access_token_def jwt_encode_def ACCESS_TOKEN_EXPIRE_MINUTES_def
      get_current_user_Jwt Let_def env0_def)

text \<open>
  Claim C5: every bearer token with an invalid signature, every expired token and every
  token without a subject is refused with a 401-class error, and any other token yields
  its subject. The code answers an expired token with 401 and returns the subject of a
  good one (lemma \<open>get_current_user_Jwt\<close>), but a token with an invalid signature
  leaves \<open>get_current_user\<close> with \<open>AttributeError\<close>, which is status 500: the second
  \<open>except\<close> clause names \<open>jwt.JWTError\<close>, which module \<open>jwt\<close> does not have. The
  theorem runs the code on a token for user \<open>u1\<close>, not yet expired, whose tag is not
  the HMAC of its payload.
\<close>

theorem get_current_user_invalid_signature_500:
  "get_current_user env0 1705312800
     (Jwt \<lparr>sub_claim = Some ''u1'', exp_claim = Some 1707904800\<rparr> 0) = Inl AttributeError
   \<and> http_status AttributeError = 500"
  by (simp add: get_current_user_Jwt env0_def toy_mac_def)

text \<open>
  Claim C6: the token issued for a user id carries subject = that id and expiry = issue
  time + 30 days (2592000 seconds), and verifying it at any instant before the expiry
  returns the same user id.
\<close>

theorem issue_verify_round_trip:
  "create_access_token e now \<lparr>sub_claim = Some uid, exp_claim = None\<rparr> =
     Jwt \<lparr>sub_claim = Some uid, exp_claim = Some (now + 30 * 86400)\<rparr>
         (hs256 e (SECRET_KEY e) \<lparr>sub_claim = Some uid, exp_claim = Some (now + 30 * 86400)\<rparr>)
   \<and> (t < now + 30 * 86400 \<longrightarrow>
          get_current_user e t (create_access_token e now \<lparr>sub_claim = Some uid, exp_claim = None\<rparr>) = Inr uid)"
  by (simp add: create_access_token_def jwt_encode_def ACCESS_TOKEN_EXPIRE_MINUTES_def get_current_user_Jwt Let_def)

theorem issue_verify_round_trip_witness:
  "(1705312800::int) < 1705312800 + 30 * 86400 \<and>
   get_current_user env0 1705312800
     (create_access_token env0 1705312800 \<lparr>sub_claim = Some ''u1'', exp_claim = None\<rparr>) = Inr ''u1''"
  using issue_verify_round_trip [of env0 1705312800 "''u1''" 1705312800, THEN conjunct2] by simp

section \<open>Registration and login\<close>

lemma find_snoc:
  "find P (xs @ [y]) = (case find P xs of Some x \<Rightarrow> Some x | None \<Rightarrow> if P y then Some y else None)"
  by (induction xs) simp_all

lemma find_one_user_append:
  "find_one_user (d\<lparr>users := users d @ [doc]\<rparr>) name =
     (case find_one_user d name of Some u \<Rightarrow> Some u
      | None \<Rightarrow> if username doc = name then Some doc else None)"
  by (simp add: find_one_user_def find_snoc)

lemma find_one_user_None_iff: "find_one_user d name = None \<longleftrightarrow> name \<notin> usernames d"
  by (auto simp: find_one_user_def usernames_def find_None_iff)

lemma find_first:
  "\<forall>x\<in>set before. \<not> P x \<Longrightarrow> P y \<Longrightarrow> find P (before @ y # after) = Some y"
  by (induction before) simp_all

lemma find_one_user_first:
  "users d = before @ doc # after \<Longrightarrow> username doc = name \<Longrightarrow>
   name \<notin> username ` set before \<Longrightarrow> find_one_user d name = Some doc"
proof -
  assume u: "users d = before @ doc # after" and n: "username doc = name"
    and f: "name \<notin> username ` set before"
  from f have "\<forall>x\<in>set before. \<not> username x = name"
    by blast
  then have "find (\<lambda>u. username u = name) (before @ doc # after) = Some doc"
    using n by (rule find_first)
  then show ?thesis
    by (simp add: find_one_user_def u)
qed

lemma find_one_user_mem:
  "find_one_user d n = Some doc \<Longrightarrow> doc \<in> set (users d) \<and> username doc = n"
  by (auto simp: find_one_user_def find_Some_iff)

lemma usernames_append: "usernames (d\<lparr>users := users d @ [doc]\<rparr>) = insert (username doc) (usernames d)"
  by (auto simp: usernames_def)

lemma verify_cases:
  "verify_password e pw hsh =
     (case pwd_verify e pw hsh of None \<Rightarrow> Inl ValueError | Some ok \<Rightarrow> Inr ok)"
  by (simp add: verify_password_def)

text \<open>
  Claim C7 says that registering a username that no stored user has always succeeds.
  It does not where the password library refuses the password: for a fresh username
  and a password with a NUL byte the hashing of line 125 raises, the request is answered
  500 and nothing is inserted.
\<close>

theorem register_rejected_password_500:
  "''bob'' \<notin> usernames db1
   \<and> register env0 1705312800 1705312850 ''u2''
         \<lparr>username_r = ''bob'', password_r = [CHR 0x00]\<rparr> db1 = Inl ValueError
   \<and> http_status ValueError = 500"
  by (simp add: usernames_def db1_def register_def find_one_user_def hash_password_def env0_def)

text \<open>
  Claim C7, amended: for every username that no stored user has and every password
  that the password library hashes, registration succeeds and appends exactly one user
  document, with that username and the hash (the problems are untouched); registering
  the same username again, with whatever password, identifier, clock or library, fails
  with status 400 and detail \<open>Username already registered\<close>, as does every
  registration of a username that a stored user has; the failing handler returns
  before it writes.
\<close>

theorem register_once:
  "(username_r ud \<notin> usernames d \<and> pwd_hash e (password_r ud) = Some h \<longrightarrow>
      register e t_created t_token new_id ud d =
        Inr (\<lparr>access_token = create_access_token e t_token
                               \<lparr>sub_claim = Some new_id, exp_claim = None\<rparr>,
              token_type = ''bearer'',
              user = \<lparr>id_u = new_id, username = username_r ud, created_at_u = t_created\<rparr>\<rparr>,
             d\<lparr>users := users d @
                  [\<lparr>id_u = new_id, username = username_r ud, created_at_u = t_created,
                    password_hash = h\<rparr>]\<rparr>)
      \<and> register e' t_created' t_token' new_id' (ud\<lparr>password_r := pw'\<rparr>)
            (d\<lparr>users := users d @
                  [\<lparr>id_u = new_id, username = username_r ud, created_at_u = t_created,
                    password_hash = h\<rparr>]\<rparr>)
          = Inl (HTTPException 400 ''Username already registered''))
   \<and> (username_r ud \<in> usernames d \<longrightarrow>
        register e t_created t_token new_id ud d =
          Inl (HTTPException 400 ''Username already registered''))"
proof -
  have taken: "register e0 a b c ud0 d0 = Inl (HTTPException 400 ''Username already registered'')"
    if "username_r ud0 \<in> usernames d0" for e0 a b c ud0 d0
  proof -
    from that have "find_one_user d0 (username_r ud0) \<noteq> None"
      by (simp add: find_one_user_None_iff)
    then show ?thesis
      by (auto simp: register_def)
  qed
  have fresh: "register e t_created t_token new_id ud d =
        Inr (\<lparr>access_token = create_access_token e t_token
                               \<lparr>sub_claim = Some new_id, exp_claim = None\<rparr>,
              token_type = ''bearer'',
              user = \<lparr>id_u = new_id, username = username_r ud, created_at_u = t_created\<rparr>\<rparr>,
             d\<lparr>users := users d @
                  [\<lparr>id_u = new_id, username = username_r ud, created_at_u = t_created,
                    password_hash = h\<rparr>]\<rparr>)"
    if "username_r ud \<notin> usernames d" "pwd_hash e (password_r ud) = Some h"
  proof -
    from that(1) have "find_one_user d (username_r ud) = None"
      by (simp add: find_one_user_None_iff)
    with that(2) show ?thesis
      by (simp add: register_def hash_password_def Let_def)
  qed
  have again: "register e' t_created' t_token' new_id' (ud\<lparr>password_r := pw'\<rparr>)
            (d\<lparr>users := users d @
                  [\<lparr>id_u = new_id, username = username_r ud, created_at_u = t_created,
                    password_hash = h\<rparr>]\<rparr>)
          = Inl (HTTPException 400 ''Username already registered'')"
    by (rule taken) (simp add: usernames_append)
  from taken fresh again show ?thesis
    by blast
qed

theorem register_once_witness:
  "''bob'' \<notin> usernames db1
   \<and> pwd_hash env0 ''hunter2'' = Some ''$2b$hunter2''
   \<and> register env0 1705312800 1705312850 ''u2'' \<lparr>username_r = ''bob'', password_r = ''hunter2''\<rparr> db1 =
        Inr (\<lparr>access_token = create_access_token env0 1705312850
                                \<lparr>sub_claim = Some ''u2'', exp_claim = None\<rparr>,
              token_type = ''bearer'',
              user = \<lparr>id_u = ''u2'', username = ''bob'', created_at_u = 1705312800\<rparr>\<rparr>,
             db1\<lparr>users := users db1 @ [\<lparr>id_u = ''u2'', username = ''bob'',
                      created_at_u = 1705312800, password_hash = ''$2b$hunter2''\<rparr>]\<rparr>)
   \<and> register env0 1705312900 1705312950 ''u3'' \<lparr>username_r = ''bob'', password_r = ''other''\<rparr>
         (db1\<lparr>users := users db1 @ [\<lparr>id_u = ''u2'', username = ''bob'',
                      created_at_u = 1705312800, password_hash = ''$2b$hunter2''\<rparr>]\<rparr>)
        = Inl (HTTPException 400 ''Username already registered'')
   \<and> ''ada'' \<in> usernames db1
   \<and> register env0 1705312800 1705312850 ''u3'' \<lparr>username_r = ''ada'', password_r = ''pw''\<rparr> db1
        = Inl (HTTPException 400 ''Username already registered'')"
proof -
  have fresh: "''bob'' \<notin> usernames db1"
    by (simp add: usernames_def db1_def)
  have taken: "''ada'' \<in> usernames db1"
    by (simp add: usernames_def db1_def)
  have h: "pwd_hash env0 ''hunter2'' = Some ''$2b$hunter2''"
    by (simp add: env0_def)
  note bob = register_once [where ud = "\<lparr>username_r = ''bob'', password_r = ''hunter2''\<rparr>"
      and d = db1 and e = env0 and h = "''$2b$hunter2''" and t_created = 1705312800
      and t_token = 1705312850 and new_id = "''u2''" and e' = env0 and t_created' = 1705312900
      and t_token' = 1705312950 and new_id' = "''u3''" and pw' = "''other''", THEN conjunct1]
  note ada = register_once [where ud = "\<lparr>username_r = ''ada'', password_r = ''pw''\<rparr>"
      and d = db1 and e = env0 and t_created = 1705312800 and t_token = 1705312850
      and new_id = "''u3''", THEN conjunct2]
  from fresh h bob taken ada show ?thesis
    by simp
qed

text \<open>
  Claim C8 says that every login is answered 401 or 200. It is not where the password
  library refuses the supplied password for an existing user: the verification of line
  138 raises and the request is answered 500.
\<close>

theorem login_rejected_password_500:
  "''ada'' \<in> usernames db1
   \<and> login env0 1705312800 \<lparr>username_r = ''ada'', password_r = [CHR 0x00]\<rparr> db1 = Inl ValueError
   \<and> http_status ValueError = 500"
  by (simp add: usernames_def db1_def login_def find_one_user_def verify_password_def env0_def)

text \<open>
  Claim C8, amended: a login whose username no stored user has fails with status 401,
  without the password being looked at; for a username that is stored, with \<open>doc\<close> the
  first stored user of that name, the login fails with 401 when the library finds that
  the password does not match the stored hash, and when it matches, the login succeeds
  with a token whose subject is the id of \<open>doc\<close> and which \<open>get_current_user\<close>
  accepts.
\<close>

theorem login_401_or_token:
  "(username_r ud \<notin> usernames d \<longrightarrow>
      login e t_token ud d = Inl (HTTPException 401 ''Incorrect username or password''))
   \<and> (users d = before @ doc # after \<and> username doc = username_r ud
        \<and> username_r ud \<notin> username ` set before \<longrightarrow>
        (pwd_verify e (password_r ud) (password_hash doc) = Some False \<longrightarrow>
           login e t_token ud d = Inl (HTTPException 401 ''Incorrect username or password''))
      \<and> (pwd_verify e (password_r ud) (password_hash doc) = Some True \<longrightarrow>
           (\<exists>r p tag. login e t_token ud d = Inr r \<and> access_token r = Jwt p tag
               \<and> sub_claim p = Some (id_u doc)
               \<and> get_current_user e t_token (access_token r) = Inr (id_u doc))))"
proof -
  have absent: "login e t_token ud d = Inl (HTTPException 401 ''Incorrect username or password'')"
    if "username_r ud \<notin> usernames d"
  proof -
    from that have "find_one_user d (username_r ud) = None"
      by (simp add: find_one_user_None_iff)
    then show ?thesis by (simp add: login_def)
  qed
  have present: "(pwd_verify e (password_r ud) (password_hash doc) = Some False \<longrightarrow>
           login e t_token ud d = Inl (HTTPException 401 ''Incorrect username or password''))
      \<and> (pwd_verify e (password_r ud) (password_hash doc) = Some True \<longrightarrow>
           (\<exists>r p tag. login e t_token ud d = Inr r \<and> access_token r = Jwt p tag
               \<and> sub_claim p = Some (id_u doc)
               \<and> get_current_user e t_token (access_token r) = Inr (id_u doc)))"
    if "users d = before @ doc # after" "username doc = username_r ud"
      "username_r ud \<notin> username ` set before"
  proof -
    from that have "find_one_user d (username_r ud) = Some doc"
      by (rule find_one_user_first)
    then show ?thesis
      by (simp add: login_def verify_cases Let_def create_access_token_def jwt_encode_def
          get_current_user_Jwt ACCESS_TOKEN_EXPIRE_MINUTES_def)
  qed
  from absent present show ?thesis by blast
qed

theorem login_401_or_token_witness:
  "''eve'' \<notin> usernames db2
   \<and> login env0 1705312800 \<lparr>username_r = ''eve'', password_r = ''pw''\<rparr> db2
       = Inl (HTTPException 401 ''Incorrect username or password'')
   \<and> pwd_verify env0 ''wrong'' ''$2b$hunter2'' = Some False
   \<and> login env0 1705312800 \<lparr>username_r = ''bob'', password_r = ''wrong''\<rparr> db2
       = Inl (HTTPException 401 ''Incorrect username or password'')
   \<and> pwd_verify env0 ''hunter2'' ''$2b$hunter2'' = Some True
   \<and> (\<exists>r p tag. login env0 1705312800 \<lparr>username_r = ''bob'', password_r = ''hunter2''\<rparr> db2 = Inr r
          \<and> access_token r = Jwt p tag \<and> sub_claim p = Some ''u2'')"
proof -
  let ?ada = "\<lparr>id_u = ''u1'', username = ''ada'', created_at_u = 1705000000,
               password_hash = ''$2b$pw''\<rparr>"
  let ?bob = "\<lparr>id_u = ''u2'', username = ''bob'', created_at_u = 1705100000,
               password_hash = ''$2b$hunter2''\<rparr>"
  have eve: "''eve'' \<notin> usernames db2"
    by (simp add: usernames_def db2_def)
  have v0: "pwd_verify env0 ''wrong'' ''$2b$hunter2'' = Some False"
    by (simp add: env0_def)
  have v1: "pwd_verify env0 ''hunter2'' ''$2b$hunter2'' = Some True"
    by (simp add: env0_def)
  have split: "users db2 = [?ada] @ ?bob # []"
    by (simp add: db2_def)
  have first: "''bob'' \<notin> username ` set [?ada]"
    by simp
  from eve login_401_or_token [where ud = "\<lparr>username_r = ''eve'', password_r = ''pw''\<rparr>"
      and d = db2 and e = env0 and t_token = 1705312800, THEN conjunct1]
  have a: "login env0 1705312800 \<lparr>username_r = ''eve'', password_r = ''pw''\<rparr> db2
       = Inl (HTTPException 401 ''Incorrect username or password'')"
    by simp
  from split first v0 login_401_or_token [where ud = "\<lparr>username_r = ''bob'', password_r = ''wrong''\<rparr>"
      and d = db2 and e = env0 and t_token = 1705312800 and before = "[?ada]" and doc = ?bob
      and after = "[]", THEN conjunct2]
  have b: "login env0 1705312800 \<lparr>username_r = ''bob'', password_r = ''wrong''\<rparr> db2
       = Inl (HTTPException 401 ''Incorrect username or password'')"
    by simp
  from split first v1 login_401_or_token [where ud = "\<lparr>username_r = ''bob'', password_r = ''hunter2''\<rparr>"
      and d = db2 and e = env0 and t_token = 1705312800 and before = "[?ada]" and doc = ?bob
      and after = "[]", THEN conjunct2]
  have c: "\<exists>r p tag. login env0 1705312800 \<lparr>username_r = ''bob'', password_r = ''hunter2''\<rparr> db2 = Inr r
          \<and> access_token r = Jwt p tag \<and> sub_claim p = Some ''u2''"
    by simp blast
  from eve a v0 b v1 c show ?thesis by blast
qed

section \<open>What the responses show of the password\<close>

lemma find_public:
  "map public_fields xs = map public_fields ys \<Longrightarrow>
   map_option public_fields (find (\<lambda>u. username u = n) xs) =
   map_option public_fields (find (\<lambda>u. username u = n) ys)"
proof (induction xs arbitrary: ys)
  case Nil
  then show ?case by simp
next
  case (Cons x xs)
  then obtain y ys' where ys: "ys = y # ys'" by (cases ys) auto
  with Cons.prems have xy: "public_fields x = public_fields y"
    and rest: "map public_fields xs = map public_fields ys'"
    by simp_all
  from xy have "username x = username y" by (simp add: public_fields_def)
  with xy Cons.IH [OF rest] show ?case
    by (simp add: ys)
qed

lemma login_Inr:
  "login e t_token ud d = Inr r \<Longrightarrow>
   \<exists>doc. find_one_user d (username_r ud) = Some doc
     \<and> r = \<lparr>access_token = create_access_token e t_token
                              \<lparr>sub_claim = Some (id_u doc), exp_claim = None\<rparr>,
            token_type = ''bearer'',
            user = \<lparr>id_u = id_u doc, username = username doc, created_at_u = created_at_u doc\<rparr>\<rparr>"
  by (auto simp: login_def Let_def split: option.splits sum.splits if_splits)

lemma register_Inr:
  "register e t_created t_token new_id ud d = Inr (r, d1) \<Longrightarrow>
   r = \<lparr>access_token = create_access_token e t_token \<lparr>sub_claim = Some new_id, exp_claim = None\<rparr>,
        token_type = ''bearer'',
        user = \<lparr>id_u = new_id, username = username_r ud, created_at_u = t_created\<rparr>\<rparr>"
  by (auto simp: register_def Let_def split: option.splits sum.splits)

lemma register_Inl:
  "register e t_created t_token new_id ud d = Inl x \<Longrightarrow>
   x = HTTPException 400 ''Username already registered'' \<or> x = ValueError"
  by (auto simp: register_def Let_def hash_password_def split: option.splits sum.splits)

lemma login_Inl:
  "login e t_token ud d = Inl x \<Longrightarrow>
   x = HTTPException 401 ''Incorrect username or password'' \<or> x = ValueError"
  by (auto simp: login_def Let_def verify_password_def split: option.splits sum.splits if_splits)

lemma create_access_token_env:
  "SECRET_KEY e' = SECRET_KEY e \<Longrightarrow> hs256 e' = hs256 e \<Longrightarrow>
   create_access_token e' t p = create_access_token e t p"
  by (simp add: create_access_token_def jwt_encode_def)

lemma responses_ignore_users:
  "map_sum id fst (create_problem e t_auth now new_id credentials pd (d\<lparr>users := us\<rparr>)) =
     map_sum id fst (create_problem e t_auth now new_id credentials pd d)"
  "get_problems e t_auth credentials (d\<lparr>users := us\<rparr>) = get_problems e t_auth credentials d"
  "get_stats e t_auth now credentials (d\<lparr>users := us\<rparr>) = get_stats e t_auth now credentials d"
  "map_sum id fst (seed_data e t_auth clock uuids credentials (d\<lparr>users := us\<rparr>)) =
     map_sum id fst (seed_data e t_auth clock uuids credentials d)"
  by (auto simp: create_problem_def get_problems_def get_stats_def seed_data_def Let_def
      find_problems_def count_problems_def split: sum.splits)

lemma register_bob:
  "register env0 1705312800 1705312850 ''u2'' \<lparr>username_r = ''bob'', password_r = ''hunter2''\<rparr> db1 =
     Inr (\<lparr>access_token = create_access_token env0 1705312850
                             \<lparr>sub_claim = Some ''u2'', exp_claim = None\<rparr>,
           token_type = ''bearer'',
           user = \<lparr>id_u = ''u2'', username = ''bob'', created_at_u = 1705312800\<rparr>\<rparr>,
          db1\<lparr>users := users db1 @ [\<lparr>id_u = ''u2'', username = ''bob'',
                    created_at_u = 1705312800, password_hash = ''$2b$hunter2''\<rparr>]\<rparr>)"
  by (simp add: register_def find_one_user_def db1_def hash_password_def env0_def Let_def)

lemma register_bob_rev:
  "register env0_rev 1705312800 1705312850 ''u2''
     (\<lparr>username_r = ''bob'', password_r = ''hunter2''\<rparr>\<lparr>password_r := ''secret''\<rparr>) db1 =
     Inr (\<lparr>access_token = create_access_token env0_rev 1705312850
                             \<lparr>sub_claim = Some ''u2'', exp_claim = None\<rparr>,
           token_type = ''bearer'',
           user = \<lparr>id_u = ''u2'', username = ''bob'', created_at_u = 1705312800\<rparr>\<rparr>,
          db1\<lparr>users := users db1 @ [\<lparr>id_u = ''u2'', username = ''bob'',
                    created_at_u = 1705312800, password_hash = ''terces''\<rparr>]\<rparr>)"
  by (simp add: register_def find_one_user_def db1_def hash_password_def env0_rev_def Let_def)

lemma login_bob:
  "login env0 1705312800 \<lparr>username_r = ''bob'', password_r = ''hunter2''\<rparr> db2 =
     Inr \<lparr>access_token = create_access_token env0 1705312800
                            \<lparr>sub_claim = Some ''u2'', exp_claim = None\<rparr>,
          token_type = ''bearer'',
          user = \<lparr>id_u = ''u2'', username = ''bob'', created_at_u = 1705100000\<rparr>\<rparr>"
  by (simp add: login_def find_one_user_def db2_def verify_password_def env0_def Let_def)

lemma login_bob_rev:
  "login env0_rev 1705312800
     (\<lparr>username_r = ''bob'', password_r = ''hunter2''\<rparr>\<lparr>password_r := ''secret''\<rparr>) db2_rev =
     Inr \<lparr>access_token = create_access_token env0_rev 1705312800
                            \<lparr>sub_claim = Some ''u2'', exp_claim = None\<rparr>,
          token_type = ''bearer'',
          user = \<lparr>id_u = ''u2'', username = ''bob'', created_at_u = 1705100000\<rparr>\<rparr>"
  by (simp add: login_def find_one_user_def db2_rev_def verify_password_def env0_rev_def Let_def)

text \<open>
  Claim C10 says that the plaintext password never appears in any API response. The
  framework's answer to a body that fails validation repeats the input that failed: a
  registration that lacks the username is answered 422 with the submitted object,
  password included, under \<open>detail\<close>.
\<close>

theorem validation_error_echoes_password:
  "post_register env0 1705312800 1705312850 ''u9'' (JObject [(''password'', JString ''hunter2'')]) db0 =
     ((422, JObject [(''detail'', JArray [JObject
          [(''type'', JString ''missing''),
           (''loc'', JArray [JString ''body'', JString ''username'']),
           (''msg'', JString ''Field required''),
           (''input'', JObject [(''password'', JString ''hunter2'')])]])]), db0)
   \<and> ''hunter2'' \<in> set (json_strings (snd (fst (post_register env0 1705312800 1705312850 ''u9''
         (JObject [(''password'', JString ''hunter2'')]) db0))))"
  by (simp add: post_register_def validate_UserRegister_def field_errors_def error_json_def)

text \<open>
  Claim C10, amended: in every successful register or login the user object of the
  response has exactly the fields id, username and created_at, and the whole response is
  the same whatever the plaintext password, whatever the password library and whatever
  hashes are stored: two successful registrations of the same username at the same
  clock and identifier answer the same, and so do two successful logins on stores that
  agree on everything but the hashes. The exceptions that leave the two handlers are
  fixed: status 400 or 401 with a constant detail, or the library's error. The four
  problem endpoints answer the same whatever the users collection holds.
\<close>

theorem response_without_password:
  "(register e t_created t_token new_id ud d = Inr (r, d1) \<longrightarrow>
       user r = \<lparr>id_u = new_id, username = username_r ud, created_at_u = t_created\<rparr>
     \<and> (SECRET_KEY e' = SECRET_KEY e \<and> hs256 e' = hs256 e
          \<and> register e' t_created t_token new_id (ud\<lparr>password_r := pw'\<rparr>) d = Inr (r', d2)
        \<longrightarrow> r' = r))
   \<and> (login e t_token ud d = Inr s \<longrightarrow>
       (\<exists>doc\<in>set (users d). username doc = username_r ud
           \<and> user s = \<lparr>id_u = id_u doc, username = username doc,
                        created_at_u = created_at_u doc\<rparr>)
     \<and> (SECRET_KEY e' = SECRET_KEY e \<and> hs256 e' = hs256 e
          \<and> map public_fields (users dd) = map public_fields (users d)
          \<and> login e' t_token (ud\<lparr>password_r := pw'\<rparr>) dd = Inr s'
        \<longrightarrow> s' = s))
   \<and> (register e t_created t_token new_id ud d = Inl x \<longrightarrow>
         x = HTTPException 400 ''Username already registered'' \<or> x = ValueError)
   \<and> (login e t_token ud d = Inl y \<longrightarrow>
         y = HTTPException 401 ''Incorrect username or password'' \<or> y = ValueError)
   \<and> map_sum id fst (create_problem e t_auth now pid credentials pd (d\<lparr>users := us\<rparr>)) =
        map_sum id fst (create_problem e t_auth now pid credentials pd d)
   \<and> get_problems e t_auth credentials (d\<lparr>users := us\<rparr>) = get_problems e t_auth credentials d
   \<and> get_stats e t_auth now credentials (d\<lparr>users := us\<rparr>) = get_stats e t_auth now credentials d
   \<and> map_sum id fst (seed_data e t_auth clock uuids credentials (d\<lparr>users := us\<rparr>)) =
        map_sum id fst (seed_data e t_auth clock uuids credentials d)"
proof -
  have reg: "user r = \<lparr>id_u = new_id, username = username_r ud, created_at_u = t_created\<rparr>
     \<and> (SECRET_KEY e' = SECRET_KEY e \<and> hs256 e' = hs256 e
          \<and> register e' t_created t_token new_id (ud\<lparr>password_r := pw'\<rparr>) d = Inr (r', d2)
        \<longrightarrow> r' = r)"
    if a: "register e t_created t_token new_id ud d = Inr (r, d1)"
  proof -
    note r = register_Inr [OF a]
    have "r' = r" if k: "SECRET_KEY e' = SECRET_KEY e" "hs256 e' = hs256 e"
      and b: "register e' t_created t_token new_id (ud\<lparr>password_r := pw'\<rparr>) d = Inr (r', d2)"
      using register_Inr [OF b] r create_access_token_env [OF k] by simp
    with r show ?thesis by simp
  qed
  have log: "(\<exists>doc\<in>set (users d). username doc = username_r ud
           \<and> user s = \<lparr>id_u = id_u doc, username = username doc,
                        created_at_u = created_at_u doc\<rparr>)
     \<and> (SECRET_KEY e' = SECRET_KEY e \<and> hs256 e' = hs256 e
          \<and> map public_fields (users dd) = map public_fields (users d)
          \<and> login e' t_token (ud\<lparr>password_r := pw'\<rparr>) dd = Inr s'
        \<longrightarrow> s' = s)"
    if a: "login e t_token ud d = Inr s"
  proof -
    from login_Inr [OF a] obtain doc where
      f: "find_one_user d (username_r ud) = Some doc"
      and s: "s = \<lparr>access_token = create_access_token e t_token
                              \<lparr>sub_claim = Some (id_u doc), exp_claim = None\<rparr>,
            token_type = ''bearer'',
            user = \<lparr>id_u = id_u doc, username = username doc, created_at_u = created_at_u doc\<rparr>\<rparr>"
      by blast
    from find_one_user_mem [OF f] s
    have one: "\<exists>doc\<in>set (users d). username doc = username_r ud
           \<and> user s = \<lparr>id_u = id_u doc, username = username doc,
                        created_at_u = created_at_u doc\<rparr>"
      by auto
    have two: "s' = s" if k: "SECRET_KEY e' = SECRET_KEY e" "hs256 e' = hs256 e"
      and m: "map public_fields (users dd) = map public_fields (users d)"
      and b: "login e' t_token (ud\<lparr>password_r := pw'\<rparr>) dd = Inr s'"
    proof -
      from login_Inr [OF b] obtain doc' where
        f': "find_one_user dd (username_r ud) = Some doc'"
        and s': "s' = \<lparr>access_token = create_access_token e' t_token
                              \<lparr>sub_claim = Some (id_u doc'), exp_claim = None\<rparr>,
            token_type = ''bearer'',
            user = \<lparr>id_u = id_u doc', username = username doc',
                    created_at_u = created_at_u doc'\<rparr>\<rparr>"
        by auto
      from find_public [OF m, of "username_r ud"] f f'
      have "public_fields doc' = public_fields doc"
        by (simp add: find_one_user_def)
      then have "id_u doc' = id_u doc" "username doc' = username doc"
        "created_at_u doc' = created_at_u doc"
        by (simp_all add: public_fields_def)
      with s s' create_access_token_env [OF k] show ?thesis by simp
    qed
    from one two show ?thesis by blast
  qed
  have c3: "register e t_created t_token new_id ud d = Inl x \<longrightarrow>
         x = HTTPException 400 ''Username already registered'' \<or> x = ValueError"
    using register_Inl by blast
  have c4: "login e t_token ud d = Inl y \<longrightarrow>
         y = HTTPException 401 ''Incorrect username or password'' \<or> y = ValueError"
    using login_Inl by blast
  from reg log show ?thesis
    by (intro conjI c3 c4 responses_ignore_users) blast+
qed

theorem response_without_password_witness:
  "map_sum id fst (register env0_rev 1705312800 1705312850 ''u2''
       \<lparr>username_r = ''bob'', password_r = ''secret''\<rparr> db1) =
     map_sum id fst (register env0 1705312800 1705312850 ''u2''
       \<lparr>username_r = ''bob'', password_r = ''hunter2''\<rparr> db1)
   \<and> login env0_rev 1705312800 \<lparr>username_r = ''bob'', password_r = ''secret''\<rparr> db2_rev =
       login env0 1705312800 \<lparr>username_r = ''bob'', password_r = ''hunter2''\<rparr> db2
   \<and> map public_fields (users db2_rev) = map public_fields (users db2)"
proof -
  have k: "SECRET_KEY env0_rev = SECRET_KEY env0" "hs256 env0_rev = hs256 env0"
    by (simp_all add: env0_rev_def)
  have m: "map public_fields (users db2_rev) = map public_fields (users db2)"
    by (simp add: db2_rev_def db2_def public_fields_def)
  note t = response_without_password [where e = env0 and e' = env0_rev
      and ud = "\<lparr>username_r = ''bob'', password_r = ''hunter2''\<rparr>" and pw' = "''secret''"
      and t_created = 1705312800 and t_token = 1705312850 and new_id = "''u2''" and d = db1]
  note u = response_without_password [where e = env0 and e' = env0_rev
      and ud = "\<lparr>username_r = ''bob'', password_r = ''hunter2''\<rparr>" and pw' = "''secret''"
      and t_token = 1705312800 and d = db2 and dd = db2_rev]
  from t [THEN conjunct1, rule_format, OF register_bob, THEN conjunct2, rule_format,
      OF conjI [OF k(1) conjI [OF k(2) register_bob_rev]]]
  have a: "map_sum id fst (register env0_rev 1705312800 1705312850 ''u2''
       \<lparr>username_r = ''bob'', password_r = ''secret''\<rparr> db1) =
     map_sum id fst (register env0 1705312800 1705312850 ''u2''
       \<lparr>username_r = ''bob'', password_r = ''hunter2''\<rparr> db1)"
    using register_bob register_bob_rev by simp
  from u [THEN conjunct2, THEN conjunct1, rule_format, OF login_bob, THEN conjunct2, rule_format,
      OF conjI [OF k(1) conjI [OF k(2) conjI [OF m login_bob_rev]]]]
  have b: "login env0_rev 1705312800 \<lparr>username_r = ''bob'', password_r = ''secret''\<rparr> db2_rev =
       login env0 1705312800 \<lparr>username_r = ''bob'', password_r = ''hunter2''\<rparr> db2"
    using login_bob login_bob_rev by simp
  from a b m show ?thesis by blast
qed

section \<open>Creating and seeding problems\<close>

lemma create_problem_authenticated:
  "get_current_user e t_auth credentials = Inr uid \<Longrightarrow>
   create_problem e t_auth now new_id credentials pd d =
     Inr (new_problem uid new_id now pd, d\<lparr>problems := problems d @ [new_problem uid new_id now pd]\<rparr>)"
  by (simp add: create_problem_def insert_problem_def Let_def)

text \<open>
  Claim C1: a POST /api/problems of an authenticated user with an empty title or an
  empty topics list fails with a validation error and persists nothing. The code has no
  such validation (\<open>ProblemCreate\<close> constrains no field), so the request succeeds and the
  problem is stored, against the repository's own test
  \<open>test_invalid_problem_creation\<close>, which expects status 422 for exactly this body.
\<close>

theorem create_problem_empty_title_topics_persisted:
  "create_problem env0 1705312800 1705312800 ''p1'' tok_u1
     \<lparr>title = [], platform = ''LeetCode'', difficulty = ''Easy'', topics = [],
      date_completed = ''2024-01-15''\<rparr> db0
   = Inr (\<lparr>title = [], platform = ''LeetCode'', difficulty = ''Easy'', topics = [],
           date_completed = ''2024-01-15'', id_p = ''p1'', user_id = ''u1'',
           created_at_p = 1705312800\<rparr>,
          \<lparr>users = [],
           problems = [\<lparr>title = [], platform = ''LeetCode'', difficulty = ''Easy'', topics = [],
                        date_completed = ''2024-01-15'', id_p = ''p1'', user_id = ''u1'',
                        created_at_p = 1705312800\<rparr>]\<rparr>)"
  by (simp add: create_problem_def auth_u1 new_problem_def insert_problem_def db0_def Let_def)

lemma seed_loop_eq:
  "seed_loop uid uuids clock k xs d =
     d\<lparr>problems := problems d @
          map (\<lambda>(j, pd). new_problem uid (uuids j) (clock (10 + j)) pd) (enumerate k xs)\<rparr>"
  by (induction xs arbitrary: k d) (simp_all add: insert_problem_def)

lemma length_sample_problems: "length (sample_problems e clock) = 10"
  by (simp add: sample_problems_def)

lemma str_nat_10: "str_nat 10 = ''10''"
  by code_simp

lemma count_problems_append:
  "count_problems (d\<lparr>problems := problems d @ new\<rparr>) uid =
     count_problems d uid + length (filter (\<lambda>p. user_id p = uid) new)"
  by (simp add: count_problems_def)

lemma count_problems_pos_iff:
  "0 < count_problems d uid \<longleftrightarrow> (\<exists>p\<in>set (problems d). user_id p = uid)"
  by (auto simp: count_problems_def filter_empty_conv)

lemma get_stats_authenticated:
  "get_current_user e t_auth credentials = Inr uid \<Longrightarrow>
   get_stats e t_auth now credentials d = compute_stats e now (find_problems d uid)"
  by (simp add: get_stats_def)

lemma length_find_problems: "length (find_problems d uid) \<le> 1000"
  by (simp add: find_problems_def)

text \<open>
  Claim C9: for an authenticated caller who owns at least one of the stored problems,
  POST /seed-data answers \<open>User already has problems\<close> and leaves the database as it
  is, whatever other users own; for a caller who owns none, whatever other users own,
  it appends exactly the 10 sample problems, each owned by the caller, and a further
  call is then the no-op.
\<close>

theorem seed_data_idempotent:
  assumes "get_current_user e t_auth credentials = Inr uid"
  shows "((\<exists>p\<in>set (problems d). user_id p = uid) \<longrightarrow>
            seed_data e t_auth clock uuids credentials d = Inr (''User already has problems'', d))
       \<and> ((\<forall>p\<in>set (problems d). user_id p \<noteq> uid) \<longrightarrow>
            (\<exists>new. seed_data e t_auth clock uuids credentials d =
                     Inr (''Seeded 10 sample problems'', d\<lparr>problems := problems d @ new\<rparr>)
                 \<and> length new = 10
                 \<and> (\<forall>p\<in>set new. user_id p = uid)
                 \<and> new = map (\<lambda>(j, pd). new_problem uid (uuids j) (clock (10 + j)) pd)
                           (enumerate 0 (sample_problems e clock))
                 \<and> seed_data e t_auth clock' uuids' credentials (d\<lparr>problems := problems d @ new\<rparr>)
                     = Inr (''User already has problems'', d\<lparr>problems := problems d @ new\<rparr>)))"
proof -
  let ?new = "map (\<lambda>(j, pd). new_problem uid (uuids j) (clock (10 + j)) pd)
                (enumerate 0 (sample_problems e clock))"
  have noop: "seed_data e t_auth c u credentials d0 = Inr (''User already has problems'', d0)"
    if "\<exists>p\<in>set (problems d0). user_id p = uid" for c u d0
    using that assms count_problems_pos_iff [of d0 uid]
    by (simp add: seed_data_def Let_def)
  have own: "\<forall>p\<in>set ?new. user_id p = uid"
    by (auto simp: new_problem_def)
  have len: "length ?new = 10"
    by (simp add: length_sample_problems)
  from len have "?new \<noteq> []"
    by (metis list.size(3) zero_neq_numeral)
  then obtain p where "p \<in> set ?new" by (cases ?new) auto
  with own have has: "\<exists>p\<in>set (problems (d\<lparr>problems := problems d @ ?new\<rparr>)). user_id p = uid"
    by auto
  have seed: "seed_data e t_auth clock uuids credentials d =
                Inr (''Seeded 10 sample problems'', d\<lparr>problems := problems d @ ?new\<rparr>)"
    if "\<forall>p\<in>set (problems d). user_id p \<noteq> uid"
  proof -
    from that count_problems_pos_iff [of d uid] have "count_problems d uid = 0"
      by auto
    with assms show ?thesis
      by (simp add: seed_data_def Let_def seed_loop_eq length_sample_problems str_nat_10)
  qed
  from noop [of d] seed own len noop [OF has] show ?thesis
    by blast
qed

theorem seed_data_idempotent_witness:
  "get_current_user env0 1705312800 tok_u1 = Inr ''u1''
   \<and> seed_data env0 1705312800 (\<lambda>k. 1705312800) str_nat tok_u1 db2 = Inr (''User already has problems'', db2)
   \<and> get_current_user env0 1705312800 tok_u2 = Inr ''u2''
   \<and> (\<exists>new. seed_data env0 1705312800 (\<lambda>k. 1705312800) str_nat tok_u2 db2 =
               Inr (''Seeded 10 sample problems'', db2\<lparr>problems := problems db2 @ new\<rparr>)
            \<and> length new = 10
            \<and> seed_data env0 1705312800 (\<lambda>k. 1705312900) str_nat tok_u2
                 (db2\<lparr>problems := problems db2 @ new\<rparr>)
               = Inr (''User already has problems'', db2\<lparr>problems := problems db2 @ new\<rparr>))"
proof -
  have has: "\<exists>p\<in>set (problems db2). user_id p = ''u1''"
    by (simp add: db2_def mk_problem_def)
  have none: "\<forall>p\<in>set (problems db2). user_id p \<noteq> ''u2''"
    by (simp add: db2_def mk_problem_def)
  from seed_data_idempotent [OF auth_u1, of db2 "\<lambda>k. 1705312800" str_nat] has
  have a: "seed_data env0 1705312800 (\<lambda>k. 1705312800) str_nat tok_u1 db2 = Inr (''User already has problems'', db2)"
    by blast
  from seed_data_idempotent [OF auth_u2, of db2 "\<lambda>k. 1705312800" str_nat "\<lambda>k. 1705312900" str_nat] none
  have b: "\<exists>new. seed_data env0 1705312800 (\<lambda>k. 1705312800) str_nat tok_u2 db2 =
               Inr (''Seeded 10 sample problems'', db2\<lparr>problems := problems db2 @ new\<rparr>)
            \<and> length new = 10
            \<and> seed_data env0 1705312800 (\<lambda>k. 1705312900) str_nat tok_u2
                 (db2\<lparr>problems := problems db2 @ new\<rparr>)
               = Inr (''User already has problems'', db2\<lparr>problems := problems db2 @ new\<rparr>)"
    by blast
  from auth_u1 a auth_u2 b show ?thesis by blast
qed

section \<open>The streak\<close>

text \<open>
  The dates the loop walks are the distinct \<open>date_completed\<close> strings in descending
  order of the strings. The loop returns the number of leading strings that read as
  today, yesterday, and so on; the only other way out of it is the \<open>ValueError\<close> of a
  string that \<open>fromisoformat\<close> rejects at the first position that does not match
  (\<open>streak_loop_cases\<close>).
\<close>

lemma sorted_dates_props:
  "distinct (sorted_dates ps)" "set (sorted_dates ps) = date_completed ` set ps"
  "sorted (rev (sorted_dates ps))"
  by (simp_all add: sorted_dates_def)

lemma sorted_dates_ne: "ps \<noteq> [] \<Longrightarrow> sorted_dates ps \<noteq> []"
proof -
  assume "ps \<noteq> []"
  then have "set (sorted_dates ps) \<noteq> {}" by (simp add: sorted_dates_props(2))
  then show ?thesis by auto
qed

lemma streak_loop_total:
  "\<forall>s\<in>set ds. fromisoformat_date e s \<noteq> None \<Longrightarrow>
   streak_loop e today i ds k =
     Inr (k + length (takeWhile (\<lambda>(j, s). fromisoformat_date e s = Some (today - int j)) (enumerate i ds)))"
  by (induction ds arbitrary: i k) (auto simp: Let_def split: option.splits)

lemma streak_loop_cases:
  "streak_loop e today i ds k =
     (let n = length (takeWhile (\<lambda>(j, s). fromisoformat_date e s = Some (today - int j)) (enumerate i ds))
      in if n < length ds \<and> fromisoformat_date e (ds ! n) = None then Inl ValueError else Inr (k + n))"
  by (induction ds arbitrary: i k) (auto simp: Let_def split: option.splits)

lemma streak_loop_first_mismatch:
  "ds \<noteq> [] \<Longrightarrow> fromisoformat_date e (hd ds) = Some d \<Longrightarrow> d \<noteq> today \<Longrightarrow>
   streak_loop e today 0 ds 0 = Inr 0"
  by (cases ds) (simp_all add: Let_def)

lemma sorted_le_last: "sorted xs \<Longrightarrow> x \<in> set xs \<Longrightarrow> x \<le> last xs"
  by (induction xs) auto

lemma hd_sorted_dates:
  assumes "ps \<noteq> []"
  shows "hd (sorted_dates ps) \<in> date_completed ` set ps"
    and "\<forall>p\<in>set ps. date_completed p \<le> hd (sorted_dates ps)"
proof -
  let ?ys = "sort (remdups (map date_completed ps))"
  from assms have ne: "?ys \<noteq> []"
    using sorted_dates_ne [OF assms] by (simp add: sorted_dates_def)
  have h: "hd (sorted_dates ps) = last ?ys"
    using ne by (simp add: sorted_dates_def hd_rev)
  from ne have "last ?ys \<in> set ?ys" by (rule last_in_set)
  then show "hd (sorted_dates ps) \<in> date_completed ` set ps"
    by (simp add: h)
  show "\<forall>p\<in>set ps. date_completed p \<le> hd (sorted_dates ps)"
  proof
    fix p assume "p \<in> set ps"
    then have "date_completed p \<in> set ?ys" by simp
    moreover have "sorted ?ys" by simp
    ultimately have "date_completed p \<le> last ?ys" by (rule sorted_le_last [rotated])
    then show "date_completed p \<le> hd (sorted_dates ps)" by (simp only: h)
  qed
qed

lemma map_sort_remdups_mono:
  fixes f :: "string \<Rightarrow> int"
  assumes "\<forall>s\<in>set xs. \<forall>t\<in>set xs. s < t \<longrightarrow> f s < f t"
  shows "map f (sort (remdups xs)) = sort (remdups (map f xs))"
proof -
  let ?ys = "sort (remdups xs)"
  have "sorted_wrt (<) ?ys"
    by (simp add: strict_sorted_iff)
  then have "sorted_wrt (\<lambda>a b. f a < f b) ?ys"
    by (rule sorted_wrt_mono_rel [rotated]) (use assms in auto)
  then have "sorted_wrt (<) (map f ?ys)"
    by (simp add: sorted_wrt_map)
  then have "sorted (map f ?ys)" "distinct (map f ?ys)"
    by (simp_all add: strict_sorted_iff)
  moreover have "sorted (sort (remdups (map f xs)))" "distinct (sort (remdups (map f xs)))"
    by simp_all
  moreover have "set (map f ?ys) = set (sort (remdups (map f xs)))"
    by simp
  ultimately show ?thesis
    by (rule sorted_distinct_set_unique)
qed

lemma takeWhile_enumerate_map:
  "length (takeWhile (\<lambda>(i, s). P i (f s)) (enumerate n xs)) =
   length (takeWhile (\<lambda>(i, d). P i d) (enumerate n (map f xs)))"
  by (induction xs arbitrary: n) simp_all

lemma takeWhile_enumerate_cong:
  "(\<And>i s. s \<in> set xs \<Longrightarrow> P i s = Q i s) \<Longrightarrow>
   takeWhile (\<lambda>(i, s). P i s) (enumerate n xs) = takeWhile (\<lambda>(i, s). Q i s) (enumerate n xs)"
  by (induction xs arbitrary: n) simp_all

text \<open>
  Claim C2 says that the streak is 0 whenever the most recent completion date is not
  today. The code takes the greatest string for the most recent date. With today in
  the basic format \<open>20240115\<close> and tomorrow as \<open>2024-01-16\<close>, both of which
  \<open>fromisoformat\<close> reads, the most recent date is tomorrow, the greatest string is
  today's, and the streak is 1.
\<close>

theorem basic_format_hides_later_date:
  "map (\<lambda>p. fromisoformat_date env0 (date_completed p)) ps_basic = [Some 19737, Some 19738]
   \<and> Max (set (dates_of day0 ps_basic)) = 19738
   \<and> utc_date 1705312800 = 19737
   \<and> map_sum id current_streak (compute_stats env0 1705312800 ps_basic) = Inr 1"
  by code_simp

text \<open>
  Claim C2, amended: for every non-empty list of problems whose \<open>date_completed\<close>
  strings \<open>fromisoformat\<close> reads and which are ordered as the dates they stand for
  (as strings of the form \<open>YYYY-MM-DD\<close> are), if the most recent of the dates is not
  today, the statistics are computed and \<open>current_streak\<close> is 0. A completion
  yesterday and none today gives 0: there is no grace period.
\<close>

theorem no_grace_period:
  assumes "ps \<noteq> []"
    and parse: "\<forall>p\<in>set ps. fromisoformat_date e (date_completed p) = Some (day (date_completed p))"
    and mono: "\<forall>p\<in>set ps. \<forall>q\<in>set ps. date_completed p \<le> date_completed q \<longrightarrow>
                 day (date_completed p) \<le> day (date_completed q)"
    and late: "Max (set (dates_of day ps)) \<noteq> utc_date now"
  shows "\<exists>st. compute_stats e now ps = Inr st \<and> current_streak st = 0"
proof -
  from hd_sorted_dates(1) [OF assms(1)] obtain q where q: "q \<in> set ps"
    and hq: "hd (sorted_dates ps) = date_completed q"
    by auto
  have "Max (set (dates_of day ps)) = day (date_completed q)"
  proof (rule Max_eqI)
    show "finite (set (dates_of day ps))" by simp
    show "day (date_completed q) \<in> set (dates_of day ps)"
      using q by (simp add: dates_of_def)
    fix y assume "y \<in> set (dates_of day ps)"
    then obtain p where p: "p \<in> set ps" and y: "y = day (date_completed p)"
      by (auto simp: dates_of_def)
    from hd_sorted_dates(2) [OF assms(1)] p hq have "date_completed p \<le> date_completed q"
      by simp
    with mono p q show "y \<le> day (date_completed q)"
      by (simp add: y)
  qed
  with late have d: "day (date_completed q) \<noteq> utc_date now" by simp
  from parse q hq have "fromisoformat_date e (hd (sorted_dates ps)) = Some (day (date_completed q))"
    by simp
  from streak_loop_first_mismatch [OF sorted_dates_ne [OF assms(1)] this d] assms(1)
  show ?thesis
    by (simp add: compute_stats_def streak_of_def Let_def)
qed

lemma ps_past_parse:
  "\<forall>p\<in>set ps_past. fromisoformat_date env0 (date_completed p) = Some (day0 (date_completed p))"
  by code_simp

lemma ps_past_mono:
  "\<forall>p\<in>set ps_past. \<forall>q\<in>set ps_past. date_completed p \<le> date_completed q \<longrightarrow>
     day0 (date_completed p) \<le> day0 (date_completed q)"
  by code_simp

theorem no_grace_period_witness:
  "ps_past \<noteq> []
   \<and> dates_of day0 ps_past = [19735, 19736, 19735]
   \<and> Max (set (dates_of day0 ps_past)) \<noteq> utc_date 1705312800
   \<and> (\<exists>st. compute_stats env0 1705312800 ps_past = Inr st \<and> current_streak st = 0)"
proof -
  have a: "ps_past \<noteq> []"
    by (simp add: ps_past_def)
  have b: "dates_of day0 ps_past = [19735, 19736, 19735]"
    by code_simp
  have c: "Max (set (dates_of day0 ps_past)) \<noteq> utc_date 1705312800"
    by (simp add: b utc_date_def)
  from a b c no_grace_period [OF a ps_past_parse ps_past_mono c] show ?thesis
    by blast
qed

text \<open>
  Claim C3 says that for every list of problems the streak is the longest run of
  calendar days ending today, each day counted once. The code deduplicates strings:
  with today as \<open>2024-01-15\<close> and as \<open>2024-01-15T08:00:00\<close> and yesterday as
  \<open>2024-01-14\<close> the run of days is 2 and the code's streak is 1. And with a
  \<open>date_completed\<close> that is no date, which \<open>create_problem\<close> stores as any other
  string, the computation raises \<open>ValueError\<close> and returns no streak.
\<close>

theorem streak_counts_spellings_of_a_day:
  "map (\<lambda>p. fromisoformat_date env0 (date_completed p)) ps_timed =
     [Some 19737, Some 19737, Some 19736]
   \<and> utc_date 1705312800 = 19737
   \<and> spec_streak 19737 [19737, 19737, 19736] = 2
   \<and> map_sum id current_streak (compute_stats env0 1705312800 ps_timed) = Inr 1
   \<and> compute_stats env0 1705312800 ps_bad_date = Inl ValueError"
  by code_simp

text \<open>
  Claim C3, amended: for every list of problems whose \<open>date_completed\<close> strings
  \<open>fromisoformat\<close> reads and of which a greater string stands for a later date (so
  that each date has one spelling, as with the form \<open>YYYY-MM-DD\<close>), \<open>current_streak\<close>
  is the length of the longest prefix of the deduplicated dates, sorted descending,
  whose \<open>i\<close>-th element is today minus \<open>i\<close> days: duplicates on a date count once, the
  walk stops at the first mismatch, and the streak of the empty list is 0.
\<close>

theorem streak_is_longest_run:
  assumes parse: "\<forall>p\<in>set ps. fromisoformat_date e (date_completed p) = Some (day (date_completed p))"
    and mono: "\<forall>p\<in>set ps. \<forall>q\<in>set ps. date_completed p < date_completed q \<longrightarrow>
                 day (date_completed p) < day (date_completed q)"
  shows "\<exists>st. compute_stats e now ps = Inr st
           \<and> current_streak st = spec_streak (utc_date now) (dates_of day ps)
           \<and> (ps = [] \<longrightarrow> current_streak st = 0)"
proof -
  have ok: "\<forall>s\<in>set (sorted_dates ps). fromisoformat_date e s \<noteq> None"
    using parse by (auto simp: sorted_dates_props(2))
  have m: "map day (sorted_dates ps) = rev (sort (remdups (dates_of day ps)))"
  proof -
    have "map day (sort (remdups (map date_completed ps))) =
            sort (remdups (map day (map date_completed ps)))"
      using map_sort_remdups_mono [of "map date_completed ps" day] mono by simp
    then show ?thesis
      by (simp add: sorted_dates_def rev_map [symmetric] dates_of_def comp_def)
  qed
  have "takeWhile (\<lambda>(i, s). fromisoformat_date e s = Some (utc_date now - int i))
                  (enumerate 0 (sorted_dates ps)) =
          takeWhile (\<lambda>(i, s). day s = utc_date now - int i) (enumerate 0 (sorted_dates ps))"
    by (rule takeWhile_enumerate_cong) (use parse in \<open>auto simp: sorted_dates_props(2)\<close>)
  then have "length (takeWhile (\<lambda>(i, s). fromisoformat_date e s = Some (utc_date now - int i))
                  (enumerate 0 (sorted_dates ps))) =
        length (takeWhile (\<lambda>(i, s). day s = utc_date now - int i) (enumerate 0 (sorted_dates ps)))"
    by simp
  also have "\<dots> = length (takeWhile (\<lambda>(i, d). d = utc_date now - int i)
                          (enumerate 0 (map day (sorted_dates ps))))"
    by (rule takeWhile_enumerate_map [of "\<lambda>i d. d = utc_date now - int i"])
  finally have run: "length (takeWhile (\<lambda>(i, s). fromisoformat_date e s = Some (utc_date now - int i))
                  (enumerate 0 (sorted_dates ps))) = spec_streak (utc_date now) (dates_of day ps)"
    by (simp only: m spec_streak_def)
  have e0: "sorted_dates [] = []" by (simp add: sorted_dates_def)
  have s0: "spec_streak (utc_date now) (dates_of day []) = 0"
    by (simp add: spec_streak_def dates_of_def)
  show ?thesis
  proof (cases "ps = []")
    case True
    then show ?thesis
      by (simp add: compute_stats_def streak_of_def Let_def s0)
  next
    case False
    then show ?thesis
      using run by (simp add: compute_stats_def streak_of_def Let_def streak_loop_total [OF ok])
  qed
qed

lemma ps3_parse:
  "\<forall>p\<in>set ps3. fromisoformat_date env0 (date_completed p) = Some (day0 (date_completed p))"
  by code_simp

lemma ps3_mono:
  "\<forall>p\<in>set ps3. \<forall>q\<in>set ps3. date_completed p < date_completed q \<longrightarrow>
     day0 (date_completed p) < day0 (date_completed q)"
  by code_simp

lemma ps3_spec: "spec_streak (utc_date 1705312800) (dates_of day0 ps3) = 2"
  by code_simp

theorem streak_is_longest_run_witness:
  "dates_of day0 ps3 = [19737, 19736, 19737, 19734]
   \<and> utc_date 1705312800 = 19737
   \<and> (\<exists>st. compute_stats env0 1705312800 ps3 = Inr st \<and> current_streak st = 2)"
proof -
  have a: "dates_of day0 ps3 = [19737, 19736, 19737, 19734]"
    by code_simp
  have b: "utc_date 1705312800 = 19737"
    by (simp add: utc_date_def)
  from streak_is_longest_run [OF ps3_parse ps3_mono, of 1705312800]
  have "\<exists>st. compute_stats env0 1705312800 ps3 = Inr st \<and> current_streak st = 2"
    by (auto simp only: ps3_spec)
  with a b show ?thesis by blast
qed

section \<open>Topic statistics\<close>






















end
